theory Spec2Isabelle
  imports Complex_Main
begin

section \<open>Numbers and vectors\<close>

text \<open>
  JavaScript numbers are modelled as real numbers: every sum, product and square root
  below is the exact one. Rounding of IEEE doubles, NaN and infinities are outside the
  model.

  The vector operations are those of three.js (Vector3, Quaternion, Plane, Ray), which
  the repository imports; they are written out here from the library's documented
  formulas so that the repository's own functions can be read against them.
\<close>

record point2 =
  p_x :: real
  p_z :: real

record vec3 =
  v_x :: real
  v_y :: real
  v_z :: real

record quaternion =
  q_x :: real
  q_y :: real
  q_z :: real
  q_w :: real

definition Vector3 :: "real \<Rightarrow> real \<Rightarrow> real \<Rightarrow> vec3" where
  "Vector3 a b c = \<lparr>v_x = a, v_y = b, v_z = c\<rparr>"

definition dot :: "vec3 \<Rightarrow> vec3 \<Rightarrow> real" where
  "dot a b = v_x a * v_x b + v_y a * v_y b + v_z a * v_z b"

definition vlength :: "vec3 \<Rightarrow> real" where
  "vlength a = sqrt (v_x a * v_x a + v_y a * v_y a + v_z a * v_z a)"

text \<open>Vector3.normalize divides by \<open>length() || 1\<close>: the zero vector is left as it is.\<close>

definition normalize_v :: "vec3 \<Rightarrow> vec3" where
  "normalize_v a =
     (let l = (if vlength a = 0 then 1 else vlength a)
      in Vector3 (v_x a / l) (v_y a / l) (v_z a / l))"

text \<open>Vector3.applyQuaternion: \<open>v + w * t + cross(q.xyz, t)\<close> with \<open>t = 2 * cross(q.xyz, v)\<close>.\<close>

definition applyQuaternion :: "vec3 \<Rightarrow> quaternion \<Rightarrow> vec3" where
  "applyQuaternion v q =
     (let tx = 2 * (q_y q * v_z v - q_z q * v_y v);
          ty = 2 * (q_z q * v_x v - q_x q * v_z v);
          tz = 2 * (q_x q * v_y v - q_y q * v_x v)
      in Vector3 (v_x v + q_w q * tx + q_y q * tz - q_z q * ty)
                 (v_y v + q_w q * ty + q_z q * tx - q_x q * tz)
                 (v_z v + q_w q * tz + q_x q * ty - q_y q * tx))"

section \<open>Room: building floor and walls from a polygon\<close>

subsection \<open>Winding test\<close>

text \<open>
  \<open>isClockwise\<close> of Room.js: the loop adds
  \<open>(next.x - current.x) * (next.z + current.z)\<close> over the closed cycle of edges, where
  \<open>next = points[(i + 1) % points.length]\<close>.
\<close>

definition nextIndex :: "'a list \<Rightarrow> nat \<Rightarrow> nat" where
  "nextIndex points i = (i + 1) mod length points"

definition shoelaceTerm :: "point2 \<Rightarrow> point2 \<Rightarrow> real" where
  "shoelaceTerm current next = (p_x next - p_x current) * (p_z next + p_z current)"

definition shoelaceSum :: "point2 list \<Rightarrow> real" where
  "shoelaceSum points =
     fold (\<lambda>i sum. sum + shoelaceTerm (points ! i) (points ! nextIndex points i))
          [0..<length points] 0"

definition isClockwise :: "point2 list \<Rightarrow> bool" where
  "isClockwise points = (if length points < 2 then False else shoelaceSum points > 0)"

subsection \<open>The room and its meshes\<close>

text \<open>
  A wall mesh as \<open>createWalls\<close> makes it. \<open>w_visible\<close> is Object3D.visible and
  \<open>w_opacity\<close> is \<open>material.opacity\<close>; a new mesh is visible and a new
  MeshStandardMaterial has opacity 1 (three.js defaults). The normal is optional because
  \<open>updateWallVisibility\<close> guards against a wall without it. The mesh's yaw
  \<open>-atan2(dz, dx)\<close>, its name and its shadow flags are not modelled.
\<close>

record wall =
  wallIndex :: nat
  wallLength :: real
  w_position :: vec3
  inwardNormalLocalXZ :: "vec3 option"
  w_visible :: bool
  w_opacity :: real

text \<open>
  The children of \<open>this.group\<close>. A wall mesh is shared between the group and
  \<open>this.wallSegments\<close>; the record lives in \<open>wallSegments\<close> and the child
  \<open>RoomWall i\<close> refers to it by its index, as the mesh name \<open>RoomWall_i\<close> does.
\<close>

datatype child = RoomFloor "point2 list" | RoomWall nat | RoomWatermark

datatype diagnostic =
    NotEnoughPointsToBuild
  | CreateFloorNotEnoughPoints
  | CreateWallsNotEnoughPoints
  | SkippingTinyWall nat real

record room =
  height :: real
  children :: "child list"
  wallSegments :: "wall list"
  currentPoints :: "point2 list"
  watermark :: bool
  watermarkTexture :: bool
  watermarkEnabled :: bool
  group_position :: vec3
  group_quaternion :: quaternion
  warnings :: "diagnostic list"

text \<open>\<open>removeWatermark\<close>: takes the watermark mesh out of the group and forgets it.\<close>

definition removeWatermark :: "room \<Rightarrow> room" where
  "removeWatermark r =
     (if watermark r then r\<lparr>children := remove1 RoomWatermark (children r), watermark := False\<rparr>
      else r)"

text \<open>The loop \<open>while (children.length > 0) remove(children[0])\<close> of \<open>clearRoom\<close>.\<close>

fun removeChildren :: "child list \<Rightarrow> child list" where
  "removeChildren [] = []"
| "removeChildren (c # cs) = removeChildren cs"

definition clearRoom :: "room \<Rightarrow> room" where
  "clearRoom r =
     (let r1 = removeWatermark r
      in r1\<lparr>children := removeChildren (children r1), wallSegments := []\<rparr>)"

definition createFloor :: "point2 list \<Rightarrow> room \<Rightarrow> room" where
  "createFloor pointsToBuildWith r =
     (if length pointsToBuildWith < 3
      then r\<lparr>warnings := warnings r @ [CreateFloorNotEnoughPoints]\<rparr>
      else r\<lparr>children := children r @ [RoomFloor pointsToBuildWith]\<rparr>)"

text \<open>
  One turn of the loop of \<open>createWalls\<close>, for the edge from \<open>points[i]\<close> to
  \<open>points[(i + 1) % n]\<close>.
\<close>

definition edgeLength :: "point2 list \<Rightarrow> nat \<Rightarrow> real" where
  "edgeLength points i =
     (let a = points ! i; b = points ! nextIndex points i;
          dx = p_x b - p_x a; dz = p_z b - p_z a
      in sqrt (dx * dx + dz * dz))"

definition makeWall :: "real \<Rightarrow> point2 list \<Rightarrow> nat \<Rightarrow> wall" where
  "makeWall h points i =
     (let a = points ! i; b = points ! nextIndex points i;
          dx = p_x b - p_x a; dz = p_z b - p_z a
      in \<lparr>wallIndex = i,
          wallLength = edgeLength points i,
          w_position = Vector3 ((p_x a + p_x b) / 2) (h / 2) ((p_z a + p_z b) / 2),
          inwardNormalLocalXZ = Some (normalize_v (Vector3 (- dz) 0 dx)),
          w_visible = True,
          w_opacity = 1\<rparr>)"

definition createWallStep :: "point2 list \<Rightarrow> nat \<Rightarrow> room \<Rightarrow> room" where
  "createWallStep points i r =
     (if edgeLength points i < 0.001
      then r\<lparr>warnings := warnings r @ [SkippingTinyWall i (edgeLength points i)]\<rparr>
      else r\<lparr>children := children r @ [RoomWall i],
             wallSegments := wallSegments r @ [makeWall (height r) points i]\<rparr>)"

definition createWalls :: "point2 list \<Rightarrow> room \<Rightarrow> room" where
  "createWalls pointsToBuildWith r =
     (if length pointsToBuildWith < 3
      then r\<lparr>warnings := warnings r @ [CreateWallsNotEnoughPoints]\<rparr>
      else fold (createWallStep pointsToBuildWith) [0..<length pointsToBuildWith]
                (r\<lparr>wallSegments := []\<rparr>))"

text \<open>
  \<open>loadWatermarkTexture\<close> keeps a texture that is already there and otherwise stores
  the handle the loader returns; the loading itself is asynchronous and not modelled.
\<close>

definition loadWatermarkTexture :: "room \<Rightarrow> room" where
  "loadWatermarkTexture r = (if watermarkTexture r then r else r\<lparr>watermarkTexture := True\<rparr>)"

text \<open>The copy of the points, reversed when \<open>isClockwise\<close> says so.\<close>

definition processedPoints :: "point2 list \<Rightarrow> point2 list" where
  "processedPoints points = (if isClockwise points then rev points else points)"

text \<open>The \<open>reduce\<close> that adds the coordinates up, then the division by the point count.\<close>

definition center :: "point2 list \<Rightarrow> point2" where
  "center points =
     (let acc = fold (\<lambda>p acc. \<lparr>p_x = p_x acc + p_x p, p_z = p_z acc + p_z p\<rparr>) points
                     \<lparr>p_x = 0, p_z = 0\<rparr>
      in if length points > 0
         then \<lparr>p_x = p_x acc / real (length points), p_z = p_z acc / real (length points)\<rparr>
         else acc)"

definition buildFromPolygon :: "point2 list \<Rightarrow> bool \<Rightarrow> room \<Rightarrow> room" where
  "buildFromPolygon points isEmpty r =
     (if length points < 3
      then clearRoom (r\<lparr>warnings := warnings r @ [NotEnoughPointsToBuild], currentPoints := []\<rparr>)
      else
        let r1 = r\<lparr>currentPoints := processedPoints points\<rparr>;
            r2 = clearRoom r1;
            r3 = createFloor (currentPoints r2) r2;
            r4 = (if \<not> isEmpty then createWalls (currentPoints r3) r3 else r3);
            c = center (currentPoints r4);
            r5 = r4\<lparr>group_position := Vector3 (- p_x c) 0 (- p_z c)\<rparr>
        in if watermarkEnabled r5 \<and> \<not> isEmpty then loadWatermarkTexture r5 else r5)"

section \<open>Wall visibility\<close>

text \<open>
  What the culler and the pointer handling read from the three.js camera:
  \<open>camera.getWorldDirection\<close>, and the ray that \<open>Raycaster.setFromCamera\<close> builds for
  a pointer position in normalized device coordinates.
\<close>

record ray =
  origin :: vec3
  direction :: vec3

record camera =
  worldDirection :: vec3
  pickRay :: "real \<times> real \<Rightarrow> ray"

definition threshold :: real where
  "threshold = 0.4"

text \<open>The body of the \<open>forEach\<close> over \<open>this.wallSegments\<close>.\<close>

definition wallVisibility :: "vec3 \<Rightarrow> quaternion \<Rightarrow> wall \<Rightarrow> wall" where
  "wallVisibility cameraWorldDirection groupWorldQuaternion wall =
     (case inwardNormalLocalXZ wall of
        None \<Rightarrow> wall\<lparr>w_visible := True\<rparr>
      | Some n \<Rightarrow>
          let worldInwardNormal = applyQuaternion n groupWorldQuaternion;
              dotProduct = dot cameraWorldDirection worldInwardNormal
          in wall\<lparr>w_visible := dotProduct < threshold\<rparr>)"

text \<open>
  \<open>updateWallVisibility\<close>. Its last statement, \<open>updateWatermarkPosition\<close>, reads
  \<open>wall.visible\<close> and writes only the watermark mesh; it assigns no field of a wall and
  is left out here.
\<close>

definition updateWallVisibility :: "camera option \<Rightarrow> room \<Rightarrow> room" where
  "updateWallVisibility cam r =
     (case cam of
        None \<Rightarrow> r
      | Some c \<Rightarrow>
          if wallSegments r = [] then r
          else r\<lparr>wallSegments :=
                   map (wallVisibility (worldDirection c) (group_quaternion r)) (wallSegments r)\<rparr>)"

section \<open>Floor dimension editor\<close>










section \<open>Scene objects, interaction and the undo stack\<close>

text \<open>
  Scene objects are shared by reference between the scene, the object list, the
  selection and the recorded actions. An object is a number, and \<open>store\<close> maps it to its
  position, Euler rotation, scale and \<open>userData\<close>; \<open>userData\<close> is kept as a list of
  key and value, on which the copy through JSON is the identity.
\<close>

type_synonym obj = nat

record objectState =
  position :: vec3
  rotation :: vec3
  scale :: vec3
  userData :: "(string \<times> string) list"

type_synonym store = "obj \<Rightarrow> objectState"

datatype js_error = TypeError

subsection \<open>InteractionManager\<close>

record plane =
  pl_normal :: vec3
  pl_constant :: real

text \<open>Plane.setFromNormalAndCoplanarPoint, Plane.distanceToPoint, Ray.at, Ray.intersectPlane.\<close>

definition setFromNormalAndCoplanarPoint :: "vec3 \<Rightarrow> vec3 \<Rightarrow> plane" where
  "setFromNormalAndCoplanarPoint n point = \<lparr>pl_normal = n, pl_constant = - dot point n\<rparr>"

definition distanceToPoint :: "plane \<Rightarrow> vec3 \<Rightarrow> real" where
  "distanceToPoint pl point = dot (pl_normal pl) point + pl_constant pl"

definition at_ray :: "ray \<Rightarrow> real \<Rightarrow> vec3" where
  "at_ray ry t = Vector3 (v_x (origin ry) + v_x (direction ry) * t)
                     (v_y (origin ry) + v_y (direction ry) * t)
                     (v_z (origin ry) + v_z (direction ry) * t)"

definition distanceToPlane :: "ray \<Rightarrow> plane \<Rightarrow> real option" where
  "distanceToPlane ry pl =
     (let denominator = dot (pl_normal pl) (direction ry)
      in if denominator = 0
         then (if distanceToPoint pl (origin ry) = 0 then Some 0 else None)
         else let t = - (dot (origin ry) (pl_normal pl) + pl_constant pl) / denominator
              in if t \<ge> 0 then Some t else None)"

definition intersectPlane :: "ray \<Rightarrow> plane \<Rightarrow> vec3 option" where
  "intersectPlane ry pl = map_option (at_ray ry) (distanceToPlane ry pl)"

record interactionManager =
  im_selectedObject :: "obj option"
  pinnedObjects :: "obj set"
  isDragging :: bool
  isRotating :: bool
  interactionMode :: string
  dragStartPosition :: vec3
  objectStartPosition :: vec3
  objectStartRotation :: vec3
  dragPlane :: plane
  dragOffset :: vec3
  pointer :: "real \<times> real"
  startPointer :: "real \<times> real"

definition isPinned :: "interactionManager \<Rightarrow> obj \<Rightarrow> bool" where
  "isPinned im object = (object \<in> pinnedObjects im)"

text \<open>
  \<open>startDrag(object, hitPoint)\<close>, where \<open>hitPoint\<close> is \<open>intersects[0].point\<close>: the point
  of the object's surface that the pick ray meets first.
\<close>

definition startDrag :: "obj \<Rightarrow> vec3 \<Rightarrow> store \<Rightarrow> interactionManager \<Rightarrow> interactionManager" where
  "startDrag object hitPoint st im =
     (if isPinned im object then im
      else
        let im1 = im\<lparr>isDragging := True,
                     isRotating := (interactionMode im = ''rotate''),
                     dragStartPosition := hitPoint,
                     objectStartPosition := position (st object),
                     objectStartRotation := rotation (st object)\<rparr>
        in if \<not> isRotating im1
           then im1\<lparr>dragPlane := setFromNormalAndCoplanarPoint (Vector3 0 1 0) (Vector3 0 0 0),
                    dragOffset := Vector3 (v_x hitPoint - v_x (position (st object))) 0
                                          (v_z hitPoint - v_z (position (st object)))\<rparr>
           else im1)"

text \<open>
  \<open>handleTranslation\<close> and \<open>handleRotation\<close> work on \<open>this.selectedObject\<close>, which
  \<open>onPointerMove\<close> has checked; without a selection the property access throws.
\<close>

definition handleTranslation :: "camera \<Rightarrow> interactionManager \<Rightarrow> store \<Rightarrow> js_error + store" where
  "handleTranslation cam im st =
     (case intersectPlane (pickRay cam (pointer im)) (dragPlane im) of
        None \<Rightarrow> Inr st
      | Some intersection \<Rightarrow>
          (case im_selectedObject im of
             None \<Rightarrow> Inl TypeError
           | Some sel \<Rightarrow>
               let currentY = v_y (position (st sel));
                   newPosition = Vector3 (v_x intersection - v_x (dragOffset im)) currentY
                                         (v_z intersection - v_z (dragOffset im))
               in Inr (st(sel := (st sel)\<lparr>position := newPosition\<rparr>))))"

definition handleRotation :: "interactionManager \<Rightarrow> store \<Rightarrow> js_error + store" where
  "handleRotation im st =
     (case im_selectedObject im of
        None \<Rightarrow> Inl TypeError
      | Some sel \<Rightarrow>
          let deltaX = fst (pointer im) - fst (startPointer im);
              rotationSensitivity = 5.0;
              rotationAngle = deltaX * rotationSensitivity
          in Inr (st(sel := (st sel)\<lparr>rotation :=
                   (rotation (st sel))\<lparr>v_y := v_y (objectStartRotation im) + rotationAngle\<rparr>\<rparr>)))"

text \<open>
  \<open>onPointerMove\<close>, given the pointer already in normalized device coordinates. The
  \<open>onObjectChanged\<close> callback that follows a handled move belongs to the scene manager
  and is not part of this function.
\<close>

definition onPointerMove ::
  "camera \<Rightarrow> real \<times> real \<Rightarrow> interactionManager \<times> store \<Rightarrow> js_error + interactionManager \<times> store" where
  "onPointerMove cam ndc ims =
     (let im = (fst ims)\<lparr>pointer := ndc\<rparr>; st = snd ims
      in case im_selectedObject im of
           None \<Rightarrow> Inr (im, st)
         | Some sel \<Rightarrow>
             if isDragging im \<and> \<not> isPinned im sel
             then (case (if isRotating im then handleRotation im st
                         else handleTranslation cam im st) of
                     Inl e \<Rightarrow> Inl e
                   | Inr st' \<Rightarrow> Inr (im, st'))
             else Inr (im, st))"

text \<open>\<open>deselect\<close>, without the highlight box and the callback.\<close>

definition deselect :: "interactionManager \<Rightarrow> interactionManager" where
  "deselect im =
     (case im_selectedObject im of
        None \<Rightarrow> im
      | Some previouslySelected \<Rightarrow> im\<lparr>im_selectedObject := None, isDragging := False\<rparr>)"

text \<open>\<open>select\<close>, without the highlight box and the callback.\<close>

definition select :: "obj \<Rightarrow> interactionManager \<Rightarrow> interactionManager" where
  "select object im =
     (if im_selectedObject im = Some object then im
      else (deselect im)\<lparr>im_selectedObject := Some object\<rparr>)"

text \<open>
  \<open>onPointerDown\<close> for a left click without modifier keys, given the pointer in
  normalized device coordinates and what the ray cast returns: nothing, or the root object
  of the first intersection together with \<open>intersects[0].point\<close>. The switch of the orbit
  controls is not modelled.
\<close>

definition onPointerDown ::
  "real \<times> real \<Rightarrow> (obj \<times> vec3) option \<Rightarrow> store \<Rightarrow> interactionManager \<Rightarrow> interactionManager" where
  "onPointerDown ndc hit st im =
     (let im1 = im\<lparr>pointer := ndc, startPointer := ndc\<rparr>
      in case hit of
           Some (selected, point) \<Rightarrow>
             if im_selectedObject im1 = Some selected
             then (if \<not> isPinned im1 selected then startDrag selected point st im1 else im1)
             else select selected im1
         | None \<Rightarrow> deselect im1)"

text \<open>\<open>onPointerUp\<close> ends the drag; it moves nothing.\<close>

definition onPointerUp :: "interactionManager \<Rightarrow> interactionManager" where
  "onPointerUp im =
     (if isDragging im \<and> im_selectedObject im \<noteq> None
      then im\<lparr>isDragging := False, isRotating := False\<rparr>
      else im)"

subsection \<open>SceneManager\<close>

text \<open>
  An action as the scene manager builds it: \<open>{type, object, properties}\<close> for an add or a
  remove, \<open>{type, object, previousProperties, newProperties}\<close> for a transform. A property
  the literal does not have is \<open>undefined\<close>, here \<open>None\<close>.
\<close>

record action =
  a_type :: string
  a_object :: obj
  properties :: "objectState option"
  previousProperties :: "objectState option"
  newProperties :: "objectState option"

datatype sm_warning = UnknownActionTypeForUndo string | UnknownActionTypeForRedo string

text \<open>
  \<open>scene\<close> is the list of scene objects among \<open>scene.children\<close>; \<open>interactionManager\<close> is
  \<open>None\<close> when \<open>initInteractionManager\<close> found its dependencies missing. Only
  \<open>console.warn\<close> is recorded, in \<open>sm_warnings\<close>.
\<close>

record sceneManager =
  objects :: "obj list"
  scene :: "obj list"
  selectedObject :: "obj option"
  undoStack :: "action list"
  redoStack :: "action list"
  interactionManager :: "interactionManager option"
  objectStore :: store
  sm_warnings :: "sm_warning list"

text \<open>
  Object3D.add takes the object away from its parent before appending it, and
  Object3D.remove takes out the one entry it finds.
\<close>

definition sceneAdd :: "obj \<Rightarrow> obj list \<Rightarrow> obj list" where
  "sceneAdd object cs = remove1 object cs @ [object]"

definition sceneRemove :: "obj \<Rightarrow> obj list \<Rightarrow> obj list" where
  "sceneRemove object cs = remove1 object cs"

definition getObjectState :: "obj \<Rightarrow> sceneManager \<Rightarrow> objectState" where
  "getObjectState object s = objectStore s object"

text \<open>\<open>applyObjectState\<close> reads \<open>state.position\<close> first, which throws when \<open>state\<close> is undefined.\<close>

definition applyObjectState ::
  "obj \<Rightarrow> objectState option \<Rightarrow> sceneManager \<Rightarrow> js_error + sceneManager" where
  "applyObjectState object state s =
     (case state of
        None \<Rightarrow> Inl TypeError
      | Some st \<Rightarrow> Inr (s\<lparr>objectStore := (objectStore s)(object := st)\<rparr>))"

definition addToUndoStack :: "action \<Rightarrow> sceneManager \<Rightarrow> sceneManager" where
  "addToUndoStack a s = s\<lparr>undoStack := undoStack s @ [a], redoStack := []\<rparr>"

text \<open>
  The \<open>onObjectChanged\<close> callback that \<open>initInteractionManager\<close> installs. It expects
  the state before the change as its second argument; the interaction manager calls it
  with the object alone, which is \<open>previousState = None\<close>.
\<close>

definition onObjectChanged :: "obj \<Rightarrow> objectState option \<Rightarrow> sceneManager \<Rightarrow> sceneManager" where
  "onObjectChanged object previousState s =
     addToUndoStack \<lparr>a_type = ''transform'', a_object = object, properties = None,
                     previousProperties = previousState,
                     newProperties = Some (getObjectState object s)\<rparr> s"

text \<open>
  \<open>deselectObject\<close> forwards to the interaction manager, whose \<open>onObjectDeselected\<close>
  callback clears \<open>this.selectedObject\<close>.
\<close>

definition deselectObject :: "sceneManager \<Rightarrow> sceneManager" where
  "deselectObject s =
     (case interactionManager s of
        None \<Rightarrow> s
      | Some im \<Rightarrow>
          (case im_selectedObject im of
             None \<Rightarrow> s
           | Some previouslySelected \<Rightarrow>
               s\<lparr>interactionManager := Some (deselect im), selectedObject := None\<rparr>))"

text \<open>
  The call \<open>this.interactionManager.updateControlsForObject(action.object)\<close> in the
  transform case: the class InteractionManager defines no method of that name, so
  the call throws whenever there is an interaction manager.
\<close>

definition updateControlsForObject :: "obj \<Rightarrow> sceneManager \<Rightarrow> js_error + sceneManager" where
  "updateControlsForObject object s =
     (case interactionManager s of None \<Rightarrow> Inr s | Some im \<Rightarrow> Inl TypeError)"

text \<open>
  \<open>undo\<close> and \<open>redo\<close> return the error thrown, if any, and the state as it is when
  the function returns or throws. The stacks grow at the end: \<open>pop\<close> takes the last
  element.
\<close>

definition undo :: "sceneManager \<Rightarrow> js_error option \<times> sceneManager" where
  "undo s =
     (if undoStack s = [] then (None, s)
      else
        let a = last (undoStack s);
            s1 = s\<lparr>undoStack := butlast (undoStack s)\<rparr>
        in if a_type a = ''add'' then
             let s2 = s1\<lparr>scene := sceneRemove (a_object a) (scene s1)\<rparr>;
                 s3 = s2\<lparr>objects := filter (\<lambda>obj. obj \<noteq> a_object a) (objects s2)\<rparr>;
                 s4 = (if selectedObject s3 = Some (a_object a) then deselectObject s3 else s3)
             in (None, s4\<lparr>redoStack := redoStack s4 @ [a]\<rparr>)
           else if a_type a = ''remove'' then
             let s2 = s1\<lparr>scene := sceneAdd (a_object a) (scene s1)\<rparr>;
                 s3 = s2\<lparr>objects := objects s2 @ [a_object a]\<rparr>
             in (case applyObjectState (a_object a) (properties a) s3 of
                   Inl e \<Rightarrow> (Some e, s3)
                 | Inr s4 \<Rightarrow> (None, s4\<lparr>redoStack := redoStack s4 @ [a]\<rparr>))
           else if a_type a = ''transform'' then
             (case applyObjectState (a_object a) (previousProperties a) s1 of
                Inl e \<Rightarrow> (Some e, s1)
              | Inr s2 \<Rightarrow>
                  (case updateControlsForObject (a_object a) s2 of
                     Inl e \<Rightarrow> (Some e, s2)
                   | Inr s3 \<Rightarrow> (None, s3\<lparr>redoStack := redoStack s3 @ [a]\<rparr>)))
           else
             (None, s1\<lparr>sm_warnings := sm_warnings s1 @ [UnknownActionTypeForUndo (a_type a)],
                      redoStack := redoStack s1 @ [a]\<rparr>))"

definition redo :: "sceneManager \<Rightarrow> js_error option \<times> sceneManager" where
  "redo s =
     (if redoStack s = [] then (None, s)
      else
        let a = last (redoStack s);
            s1 = s\<lparr>redoStack := butlast (redoStack s)\<rparr>
        in if a_type a = ''add'' then
             let s2 = s1\<lparr>scene := sceneAdd (a_object a) (scene s1)\<rparr>;
                 s3 = s2\<lparr>objects := objects s2 @ [a_object a]\<rparr>
             in (case applyObjectState (a_object a) (properties a) s3 of
                   Inl e \<Rightarrow> (Some e, s3)
                 | Inr s4 \<Rightarrow> (None, s4\<lparr>undoStack := undoStack s4 @ [a]\<rparr>))
           else if a_type a = ''remove'' then
             let s2 = s1\<lparr>scene := sceneRemove (a_object a) (scene s1)\<rparr>;
                 s3 = s2\<lparr>objects := filter (\<lambda>obj. obj \<noteq> a_object a) (objects s2)\<rparr>;
                 s4 = (if selectedObject s3 = Some (a_object a) then deselectObject s3 else s3)
             in (None, s4\<lparr>undoStack := undoStack s4 @ [a]\<rparr>)
           else if a_type a = ''transform'' then
             (case applyObjectState (a_object a) (newProperties a) s1 of
                Inl e \<Rightarrow> (Some e, s1)
              | Inr s2 \<Rightarrow>
                  (case updateControlsForObject (a_object a) s2 of
                     Inl e \<Rightarrow> (Some e, s2)
                   | Inr s3 \<Rightarrow> (None, s3\<lparr>undoStack := undoStack s3 @ [a]\<rparr>)))
           else
             (None, s1\<lparr>sm_warnings := sm_warnings s1 @ [UnknownActionTypeForRedo (a_type a)],
                      undoStack := undoStack s1 @ [a]\<rparr>))"

section \<open>Inputs used in the examples\<close>

text \<open>The room as the constructor of \<open>Room\<close> leaves it.\<close>

definition newRoom :: "real \<Rightarrow> room" where
  "newRoom h = \<lparr>height = h, children = [], wallSegments = [], currentPoints = [],
     watermark = False, watermarkTexture = False, watermarkEnabled = True,
     group_position = Vector3 0 0 0, group_quaternion = \<lparr>q_x = 0, q_y = 0, q_z = 0, q_w = 1\<rparr>,
     warnings = []\<rparr>"

text \<open>\<open>defaultRoomPoints\<close> of \<open>SceneManager.initRoom\<close>.\<close>

definition defaultRoomPoints :: "point2 list" where
  "defaultRoomPoints = [\<lparr>p_x = -5, p_z = -3\<rparr>, \<lparr>p_x = 5, p_z = -3\<rparr>,
                        \<lparr>p_x = 5, p_z = 3\<rparr>, \<lparr>p_x = -5, p_z = 3\<rparr>]"

text \<open>The room that \<open>SceneManager.initRoom\<close> builds.\<close>

definition defaultRoom :: room where
  "defaultRoom = buildFromPolygon defaultRoomPoints False (newRoom 2.5)"

text \<open>
  Two cameras that look along unit vectors in the floor plane. Against the inward normal
  \<open>(0, 0, 1)\<close> of the first wall of the default room the first gives the dot product
  \<open>240 / 601\<close>, a little below 0.4, and the second \<open>4200 / 10441\<close>, a little above.
\<close>

definition cameraJustBelowCutoff :: camera where
  "cameraJustBelowCutoff =
     \<lparr>worldDirection = Vector3 (551 / 601) 0 (240 / 601),
      pickRay = (\<lambda>ndc. \<lparr>origin = Vector3 0 0 0, direction = Vector3 (551 / 601) 0 (240 / 601)\<rparr>)\<rparr>"

definition cameraJustAboveCutoff :: camera where
  "cameraJustAboveCutoff =
     \<lparr>worldDirection = Vector3 (9559 / 10441) 0 (4200 / 10441),
      pickRay = (\<lambda>ndc. \<lparr>origin = Vector3 0 0 0, direction = Vector3 (9559 / 10441) 0 (4200 / 10441)\<rparr>)\<rparr>"



text \<open>A triangle whose second edge is half a millimetre long.\<close>

definition nearlyClosedTriangle :: "point2 list" where
  "nearlyClosedTriangle = [\<lparr>p_x = 0, p_z = 0\<rparr>, \<lparr>p_x = 4, p_z = 0\<rparr>, \<lparr>p_x = 4, p_z = 0.0005\<rparr>]"

text \<open>The interaction manager as its constructor leaves it.\<close>

definition newInteractionManager :: interactionManager where
  "newInteractionManager =
     \<lparr>im_selectedObject = None, pinnedObjects = {}, isDragging = False, isRotating = False,
      interactionMode = ''translate'',
      dragStartPosition = Vector3 0 0 0, objectStartPosition = Vector3 0 0 0,
      objectStartRotation = Vector3 0 0 0,
      dragPlane = \<lparr>pl_normal = Vector3 1 0 0, pl_constant = 0\<rparr>,
      dragOffset = Vector3 0 0 0, pointer = (0, 0), startPointer = (0, 0)\<rparr>"

text \<open>An object state on the floor, and actions on the object \<open>chair\<close>.\<close>

definition placedAt :: "real \<Rightarrow> real \<Rightarrow> objectState" where
  "placedAt a b = \<lparr>position = Vector3 a 0 b, rotation = Vector3 0 0 0, scale = Vector3 1 1 1,
                   userData = [(''type'', ''chair'')]\<rparr>"

definition chair :: obj where
  "chair = 1"

definition addChair :: action where
  "addChair = \<lparr>a_type = ''add'', a_object = chair, properties = Some (placedAt 0 0),
                previousProperties = None, newProperties = None\<rparr>"

text \<open>
  The scene manager after a chair was added at the origin and selected, with the chair
  now standing at \<open>(1, 0, 2)\<close>.
\<close>

definition sceneWithMovedChair :: sceneManager where
  "sceneWithMovedChair =
     \<lparr>objects = [chair], scene = [chair], selectedObject = Some chair,
      undoStack = [addChair], redoStack = [],
      interactionManager = Some (newInteractionManager\<lparr>im_selectedObject := Some chair\<rparr>),
      objectStore = (\<lambda>object. placedAt 1 2), sm_warnings = []\<rparr>"

definition moveChair :: action where
  "moveChair = \<lparr>a_type = ''transform'', a_object = chair, properties = None,
                 previousProperties = Some (placedAt 0 0), newProperties = Some (placedAt 1 2)\<rparr>"

definition paintChair :: action where
  "paintChair = \<lparr>a_type = ''paint'', a_object = chair, properties = Some (placedAt 1 2),
                 previousProperties = None, newProperties = None\<rparr>"

text \<open>
  A drag: the camera is at \<open>(0, 4, 0)\<close> and the ray through the pointer runs along
  \<open>(3/5, -4/5, 0)\<close>. The selected chair stands on the floor at \<open>(1, 0, 1/2)\<close>; the ray
  meets its surface at \<open>(3/2, 2, 0)\<close>, two units above the floor, and would meet the
  floor at \<open>(3, 0, 0)\<close>. Only the ray of this one pointer position is used.
\<close>

definition dragCamera :: camera where
  "dragCamera =
     \<lparr>worldDirection = Vector3 (3 / 5) (- 4 / 5) 0,
      pickRay = (\<lambda>ndc. \<lparr>origin = Vector3 0 4 0, direction = Vector3 (3 / 5) (- 4 / 5) 0\<rparr>)\<rparr>"

definition chairSelected :: interactionManager where
  "chairSelected = newInteractionManager\<lparr>im_selectedObject := Some chair\<rparr>"

definition chairStore :: store where
  "chairStore = (\<lambda>object. placedAt 1 (1 / 2))"

definition grabPoint :: vec3 where
  "grabPoint = Vector3 (3 / 2) 2 0"

section \<open>Notions used in the proofs\<close>

text \<open>The test \<open>length < 0.001\<close> of \<open>createWalls\<close>, for the edge that starts at index \<open>i\<close>.\<close>

definition degenerateEdge :: "point2 list \<Rightarrow> nat \<Rightarrow> bool" where
  "degenerateEdge points i = (edgeLength points i < 0.001)"

text \<open>The same test on a pair of points, as a number that can be summed.\<close>

definition tinyPair :: "point2 \<Rightarrow> point2 \<Rightarrow> real" where
  "tinyPair a b =
     (if sqrt ((p_x b - p_x a) * (p_x b - p_x a) + (p_z b - p_z a) * (p_z b - p_z a)) < 0.001
      then 1 else 0)"

text \<open>The action types that the \<open>switch\<close> of \<open>undo\<close> and \<open>redo\<close> has a case for.\<close>

definition knownType :: "string \<Rightarrow> bool" where
  "knownType t = (t = ''add'' \<or> t = ''remove'' \<or> t = ''transform'')"




text \<open>
  Reversing a list of \<open>n\<close> points maps the edge that starts at index \<open>i\<close> of the reversed
  list to the edge that starts at \<open>revIndex n i\<close> of the original list, walked backwards.
\<close>

definition revIndex :: "nat \<Rightarrow> nat \<Rightarrow> nat" where
  "revIndex n i = (if Suc i = n then i else n - 2 - i)"

section \<open>Properties of the room build\<close>

subsection \<open>Sums over the closed cycle of edges\<close>



lemma revIndex_less: "i < n \<Longrightarrow> revIndex n i < n"
  by (auto simp: revIndex_def)

lemma revIndex_invol: "i < n \<Longrightarrow> revIndex n (revIndex n i) = i"
  by (auto simp: revIndex_def)

lemma rev_nth_current:
  assumes "i < length ps"
  shows "rev ps ! i = ps ! nextIndex ps (revIndex (length ps) i)"
proof (cases "Suc i = length ps")
  case True
  then have "nextIndex ps (revIndex (length ps) i) = 0"
    by (simp add: revIndex_def nextIndex_def)
  moreover have "rev ps ! i = ps ! 0"
    using True assms by (simp add: rev_nth)
  ultimately show ?thesis by simp
next
  case False
  with assms have "nextIndex ps (revIndex (length ps) i) = length ps - Suc i"
    by (simp add: revIndex_def nextIndex_def)
  then show ?thesis using assms by (simp add: rev_nth)
qed

lemma rev_nth_next:
  assumes "i < length ps"
  shows "rev ps ! nextIndex (rev ps) i = ps ! revIndex (length ps) i"
proof (cases "Suc i = length ps")
  case True
  then have "nextIndex (rev ps) i = 0"
    by (simp add: nextIndex_def)
  moreover have "rev ps ! 0 = ps ! (length ps - Suc 0)"
    using assms by (intro rev_nth) auto
  moreover have "length ps - Suc 0 = i"
    using True by simp
  moreover have "revIndex (length ps) i = i"
    using True by (simp add: revIndex_def)
  ultimately show ?thesis by simp
next
  case False
  with assms have n: "nextIndex (rev ps) i = Suc i" "Suc i < length ps"
    by (simp_all add: nextIndex_def)
  have "length ps - Suc (Suc i) = length ps - 2 - i" by simp
  then show ?thesis using n False by (simp add: rev_nth revIndex_def)
qed

lemma cyclic_sum_rev:
  fixes F :: "'a \<Rightarrow> 'a \<Rightarrow> real"
  shows "(\<Sum>i<length ps. F (rev ps ! i) (rev ps ! nextIndex (rev ps) i))
       = (\<Sum>i<length ps. F (ps ! nextIndex ps i) (ps ! i))"
  by (rule sum.reindex_bij_witness[of _ "revIndex (length ps)" "revIndex (length ps)"])
     (simp_all add: revIndex_less revIndex_invol rev_nth_current rev_nth_next)




lemma length_processedPoints: "length (processedPoints ps) = length ps"
  by (simp add: processedPoints_def)



subsection \<open>What the build stores\<close>

lemma removeChildren_Nil: "removeChildren cs = []"
  by (induction cs) simp_all

lemma clearRoom_fields:
  "children (clearRoom r) = []" "wallSegments (clearRoom r) = []" "watermark (clearRoom r) = False"
  "currentPoints (clearRoom r) = currentPoints r" "warnings (clearRoom r) = warnings r"
  "height (clearRoom r) = height r"
  by (simp_all add: clearRoom_def removeWatermark_def removeChildren_Nil Let_def)

lemma createWallStep_fields:
  "height (createWallStep pts i r) = height r"
  "currentPoints (createWallStep pts i r) = currentPoints r"
  by (simp_all add: createWallStep_def)


lemma fold_createWallStep_walls:
  "wallSegments (fold (createWallStep pts) js r)
     = wallSegments r @ map (makeWall (height r) pts) (filter (\<lambda>i. \<not> degenerateEdge pts i) js)"
proof (induction js arbitrary: r)
  case Nil
  show ?case by simp
next
  case (Cons j js)
  show ?case
    by (simp add: Cons.IH createWallStep_fields) (simp add: createWallStep_def degenerateEdge_def)
qed


lemma wallSegments_createWalls:
  "3 \<le> length pts \<Longrightarrow>
   wallSegments (createWalls pts r)
     = map (makeWall (height r) pts) (filter (\<lambda>i. \<not> degenerateEdge pts i) [0..<length pts])"
  by (simp add: createWalls_def fold_createWallStep_walls)




lemma wallSegments_buildFromPolygon:
  "3 \<le> length points \<Longrightarrow>
   wallSegments (buildFromPolygon points False r)
     = map (makeWall (height r) (processedPoints points))
           (filter (\<lambda>i. \<not> degenerateEdge (processedPoints points) i) [0..<length points])"
  by (simp add: buildFromPolygon_def Let_def loadWatermarkTexture_def clearRoom_fields
      createFloor_def length_processedPoints wallSegments_createWalls)



lemma length_filter_upt_sum:
  "real (length (filter Q [0..<n])) = (\<Sum>i<n. if Q i then 1 else 0)"
  by (induction n) simp_all

lemma tinyPair_sym: "tinyPair b a = tinyPair a b"
proof -
  have "(p_x a - p_x b) * (p_x a - p_x b) = (p_x b - p_x a) * (p_x b - p_x a)"
       "(p_z a - p_z b) * (p_z a - p_z b) = (p_z b - p_z a) * (p_z b - p_z a)"
    by (simp_all add: algebra_simps)
  then show ?thesis by (simp add: tinyPair_def)
qed

lemma degenerateEdge_tinyPair:
  "(if degenerateEdge ps i then 1 else 0) = tinyPair (ps ! i) (ps ! nextIndex ps i)"
  by (simp add: degenerateEdge_def edgeLength_def tinyPair_def Let_def)

lemma degenerate_count_sum:
  "real (length (filter (degenerateEdge ps) [0..<length ps]))
     = (\<Sum>i<length ps. tinyPair (ps ! i) (ps ! nextIndex ps i))"
  unfolding length_filter_upt_sum degenerateEdge_tinyPair ..

lemma degenerate_count_rev:
  "length (filter (degenerateEdge (rev ps)) [0..<length ps])
     = length (filter (degenerateEdge ps) [0..<length ps])"
proof -
  have "real (length (filter (degenerateEdge (rev ps)) [0..<length (rev ps)]))
          = (\<Sum>i<length ps. tinyPair (rev ps ! i) (rev ps ! nextIndex (rev ps) i))"
    using degenerate_count_sum[of "rev ps"] by (simp only: length_rev)
  also have "\<dots> = (\<Sum>i<length ps. tinyPair (ps ! nextIndex ps i) (ps ! i))"
    by (rule cyclic_sum_rev)
  also have "\<dots> = (\<Sum>i<length ps. tinyPair (ps ! i) (ps ! nextIndex ps i))"
    by (rule sum.cong) (simp_all add: tinyPair_sym)
  also have "\<dots> = real (length (filter (degenerateEdge ps) [0..<length ps]))"
    unfolding degenerate_count_sum ..
  finally show ?thesis by simp
qed

lemma degenerate_count_processedPoints:
  "length (filter (degenerateEdge (processedPoints ps)) [0..<length ps])
     = length (filter (degenerateEdge ps) [0..<length ps])"
  by (simp add: processedPoints_def degenerate_count_rev)

lemma nondegenerate_count:
  "length (filter (\<lambda>i. \<not> degenerateEdge ps i) [0..<n])
     = n - length (filter (degenerateEdge ps) [0..<n])"
  using sum_length_filter_compl[of "degenerateEdge ps" "[0..<n]"] by simp


lemma upt4: "[0..<4] = [0, 1, 2, 3]"
  by (simp add: upt_rec)



lemma degenerateEdge_eta: "degenerateEdge points = (\<lambda>i. edgeLength points i < 0.001)"
  by (rule ext) (simp add: degenerateEdge_def)

text \<open>
  Claim C2. For a polygon of \<open>n \<ge> 3\<close> points, the build with walls makes \<open>n\<close> wall
  segments minus the number of cyclic edges shorter than 0.001, counted on the polygon as
  given. \<open>createWalls\<close> skips exactly the short edges, each on its own: the walls it
  makes carry the indices of the other edges, in order. The model has no error branch on
  this path: the build returns a room.
\<close>

theorem wall_count_minus_degenerate_edges:
  assumes "3 \<le> length points"
  shows "length (wallSegments (buildFromPolygon points False r))
           = length points - length (filter (\<lambda>i. edgeLength points i < 0.001) [0..<length points])
       \<and> map wallIndex (wallSegments (createWalls points r))
           = filter (\<lambda>i. \<not> edgeLength points i < 0.001) [0..<length points]"
proof -
  have w: "map wallIndex (map (makeWall h points) js) = js" for h js
    by (induction js) (simp_all add: makeWall_def Let_def)
  have "length (wallSegments (buildFromPolygon points False r))
          = length points - length (filter (degenerateEdge points) [0..<length points])"
    using assms
    by (simp add: wallSegments_buildFromPolygon nondegenerate_count degenerate_count_processedPoints)
  moreover have "map wallIndex (wallSegments (createWalls points r))
          = filter (\<lambda>i. \<not> degenerateEdge points i) [0..<length points]"
    using assms by (simp only: wallSegments_createWalls w)
  ultimately show ?thesis
    unfolding degenerateEdge_eta by simp
qed

text \<open>
  Claim C8. With fewer than three points \<open>buildFromPolygon\<close> warns that there are not
  enough points and leaves the room empty: the group has no child, there is no wall
  segment and no watermark, and the stored point list is empty.
\<close>

theorem too_few_points_leave_room_empty:
  assumes "length points < 3"
  shows "children (buildFromPolygon points isEmpty r) = []
       \<and> wallSegments (buildFromPolygon points isEmpty r) = []
       \<and> watermark (buildFromPolygon points isEmpty r) = False
       \<and> currentPoints (buildFromPolygon points isEmpty r) = []
       \<and> warnings (buildFromPolygon points isEmpty r) = warnings r @ [NotEnoughPointsToBuild]"
  using assms by (simp add: buildFromPolygon_def clearRoom_fields)


lemma sqrt_less_iff_sq:
  assumes "0 < c"
  shows "(sqrt x < c) = (x < c * c)"
proof -
  have "sqrt (c * c) = c"
    using assms by simp
  then have "(sqrt x < c) = (sqrt x < sqrt (c * c))"
    by simp
  also have "\<dots> = (x < c * c)"
    by (rule real_sqrt_less_iff)
  finally show ?thesis .
qed

lemma sqrt_tiny_iff: "(sqrt x * 1000 < 1) = (x * 1000000 < 1)"
  using sqrt_less_iff_sq[of "1 / 1000" x] by simp

lemma upt3: "[0..<3] = [0, 1, 2]"
  by (simp add: upt_rec)

theorem wall_count_minus_degenerate_edges_witness:
  "3 \<le> length nearlyClosedTriangle
   \<and> length (wallSegments (buildFromPolygon nearlyClosedTriangle False (newRoom 2.5))) = 3 - 1
   \<and> map wallIndex (wallSegments (createWalls nearlyClosedTriangle (newRoom 2.5))) = [0, 2]"
proof -
  have l: "3 \<le> length nearlyClosedTriangle"
    by (simp add: nearlyClosedTriangle_def)
  have e: "edgeLength nearlyClosedTriangle 0 = 4"
          "edgeLength nearlyClosedTriangle 1 < 0.001"
          "\<not> edgeLength nearlyClosedTriangle 2 < 0.001"
    by (simp_all add: edgeLength_def nearlyClosedTriangle_def nextIndex_def sqrt_tiny_iff)
  have n: "length nearlyClosedTriangle = 3"
    by (simp add: nearlyClosedTriangle_def)
  show ?thesis
    using wall_count_minus_degenerate_edges[OF l, of "newRoom 2.5"] e
    by (simp add: n upt3)
qed

theorem too_few_points_leave_room_empty_witness:
  "length (take 2 defaultRoomPoints) < 3
   \<and> children (buildFromPolygon (take 2 defaultRoomPoints) False
                 (buildFromPolygon defaultRoomPoints False (newRoom 2.5))) = []
   \<and> wallSegments (buildFromPolygon (take 2 defaultRoomPoints) False
                 (buildFromPolygon defaultRoomPoints False (newRoom 2.5))) = []
   \<and> currentPoints (buildFromPolygon (take 2 defaultRoomPoints) False
                 (buildFromPolygon defaultRoomPoints False (newRoom 2.5))) = []"
proof -
  have l: "length (take 2 defaultRoomPoints) < 3"
    by (simp add: defaultRoomPoints_def)
  show ?thesis
    using too_few_points_leave_room_empty[OF l, of False
            "buildFromPolygon defaultRoomPoints False (newRoom 2.5)"] l
    by simp
qed

section \<open>Properties of the wall visibility update\<close>

lemma wallSegments_defaultRoom:
  "wallSegments defaultRoom =
     [\<lparr>wallIndex = 0, wallLength = 10, w_position = Vector3 0 (5 / 4) (- 3),
        inwardNormalLocalXZ = Some (Vector3 0 0 1), w_visible = True, w_opacity = 1\<rparr>,
      \<lparr>wallIndex = 1, wallLength = 6, w_position = Vector3 5 (5 / 4) 0,
        inwardNormalLocalXZ = Some (Vector3 (- 1) 0 0), w_visible = True, w_opacity = 1\<rparr>,
      \<lparr>wallIndex = 2, wallLength = 10, w_position = Vector3 0 (5 / 4) 3,
        inwardNormalLocalXZ = Some (Vector3 0 0 (- 1)), w_visible = True, w_opacity = 1\<rparr>,
      \<lparr>wallIndex = 3, wallLength = 6, w_position = Vector3 (- 5) (5 / 4) 0,
        inwardNormalLocalXZ = Some (Vector3 1 0 0), w_visible = True, w_opacity = 1\<rparr>]"
  by (simp add: defaultRoom_def buildFromPolygon_def processedPoints_def isClockwise_def
      shoelaceSum_def upt4 nextIndex_def shoelaceTerm_def defaultRoomPoints_def
      clearRoom_def removeWatermark_def newRoom_def createFloor_def createWalls_def
      createWallStep_def edgeLength_def makeWall_def Let_def center_def
      loadWatermarkTexture_def normalize_v_def vlength_def Vector3_def)

lemma group_quaternion_defaultRoom:
  "group_quaternion defaultRoom = \<lparr>q_x = 0, q_y = 0, q_z = 0, q_w = 1\<rparr>"
  by (simp add: defaultRoom_def buildFromPolygon_def processedPoints_def isClockwise_def
      shoelaceSum_def upt4 nextIndex_def shoelaceTerm_def defaultRoomPoints_def
      clearRoom_def removeWatermark_def newRoom_def createFloor_def createWalls_def
      createWallStep_def edgeLength_def makeWall_def Let_def center_def
      loadWatermarkTexture_def normalize_v_def vlength_def Vector3_def)

lemma wallSegments_updateWallVisibility:
  "wallSegments (updateWallVisibility (Some cam) r)
     = map (wallVisibility (worldDirection cam) (group_quaternion r)) (wallSegments r)"
  by (simp add: updateWallVisibility_def)

lemma w_opacity_wallVisibility: "w_opacity (wallVisibility d q w) = w_opacity w"
  by (simp add: wallVisibility_def Let_def split: option.split)

lemma wallVisibility_only_visible: "wallVisibility d q w = w\<lparr>w_visible := w_visible (wallVisibility d q w)\<rparr>"
  by (simp add: wallVisibility_def Let_def split: option.split)

text \<open>
  Claim C3. After \<open>updateWallVisibility\<close> with a camera, a wall segment that carries
  an inward normal is hidden exactly when the dot product of the camera's world direction
  with the normal rotated by the group's world quaternion is at least 0.4, and visible
  exactly when it is below 0.4.
\<close>

theorem wall_hidden_iff_dot_reaches_threshold:
  assumes "i < length (wallSegments r)"
    and "inwardNormalLocalXZ (wallSegments r ! i) = Some n"
  shows "(\<not> w_visible (wallSegments (updateWallVisibility (Some cam) r) ! i))
           = (dot (worldDirection cam) (applyQuaternion n (group_quaternion r)) \<ge> 0.4)
       \<and> w_visible (wallSegments (updateWallVisibility (Some cam) r) ! i)
           = (dot (worldDirection cam) (applyQuaternion n (group_quaternion r)) < 0.4)"
  using assms
  by (simp add: wallSegments_updateWallVisibility wallVisibility_def Let_def threshold_def not_less)

theorem wall_hidden_iff_dot_reaches_threshold_witness:
  "3 < length (wallSegments defaultRoom)
   \<and> inwardNormalLocalXZ (wallSegments defaultRoom ! 3) = Some (Vector3 1 0 0)
   \<and> dot (worldDirection cameraJustBelowCutoff)
          (applyQuaternion (Vector3 1 0 0) (group_quaternion defaultRoom)) = 551 / 601
   \<and> \<not> w_visible (wallSegments (updateWallVisibility (Some cameraJustBelowCutoff) defaultRoom) ! 3)"
proof -
  have l: "3 < length (wallSegments defaultRoom)"
    by (simp add: wallSegments_defaultRoom)
  have n: "inwardNormalLocalXZ (wallSegments defaultRoom ! 3) = Some (Vector3 1 0 0)"
    by (simp add: wallSegments_defaultRoom)
  have d: "dot (worldDirection cameraJustBelowCutoff)
             (applyQuaternion (Vector3 1 0 0) (group_quaternion defaultRoom)) = 551 / 601"
    by (simp add: group_quaternion_defaultRoom cameraJustBelowCutoff_def applyQuaternion_def
        dot_def Vector3_def)
  show ?thesis
    using wall_hidden_iff_dot_reaches_threshold[OF l n, of cameraJustBelowCutoff] l n d
    by simp
qed

text \<open>
  Claim C4 says that near the cutoff the update sets a partial transparency on the wall
  instead of switching it. It does not: for the first wall of the default room, with a
  dot product of \<open>240 / 601\<close> the wall stays visible at opacity 1, and with
  \<open>4200 / 10441\<close> it is hidden, still at opacity 1.
\<close>

theorem no_fade_band_counterexample:
  "dot (worldDirection cameraJustBelowCutoff)
       (applyQuaternion (Vector3 0 0 1) (group_quaternion defaultRoom)) = 240 / 601
   \<and> inwardNormalLocalXZ (wallSegments defaultRoom ! 0) = Some (Vector3 0 0 1)
   \<and> w_visible (wallSegments (updateWallVisibility (Some cameraJustBelowCutoff) defaultRoom) ! 0)
   \<and> w_opacity (wallSegments (updateWallVisibility (Some cameraJustBelowCutoff) defaultRoom) ! 0) = 1
   \<and> dot (worldDirection cameraJustAboveCutoff)
       (applyQuaternion (Vector3 0 0 1) (group_quaternion defaultRoom)) = 4200 / 10441
   \<and> \<not> w_visible (wallSegments (updateWallVisibility (Some cameraJustAboveCutoff) defaultRoom) ! 0)
   \<and> w_opacity (wallSegments (updateWallVisibility (Some cameraJustAboveCutoff) defaultRoom) ! 0) = 1"
  by (simp add: wallSegments_updateWallVisibility wallSegments_defaultRoom
      group_quaternion_defaultRoom cameraJustBelowCutoff_def cameraJustAboveCutoff_def
      wallVisibility_def applyQuaternion_def dot_def Vector3_def threshold_def Let_def)

text \<open>
  Claim C4 as amended: \<open>updateWallVisibility\<close> has no fade band. It leaves the opacity
  of every wall segment as it was, and a wall segment after the update differs from the one
  before in nothing but \<open>visible\<close>, which claim C3 describes.
\<close>

theorem visibility_update_is_hard_toggle:
  "map w_opacity (wallSegments (updateWallVisibility cam r)) = map w_opacity (wallSegments r)
   \<and> map (\<lambda>w. w\<lparr>w_visible := True\<rparr>) (wallSegments (updateWallVisibility cam r))
       = map (\<lambda>w. w\<lparr>w_visible := True\<rparr>) (wallSegments r)"
proof (cases cam)
  case None
  then show ?thesis by (simp add: updateWallVisibility_def)
next
  case (Some c)
  have "(wallVisibility d q w)\<lparr>w_visible := True\<rparr> = w\<lparr>w_visible := True\<rparr>" for d q w
    by (simp add: wallVisibility_def Let_def split: option.split)
  then show ?thesis
    using Some by (simp add: wallSegments_updateWallVisibility w_opacity_wallVisibility comp_def)
qed

theorem visibility_update_is_hard_toggle_witness:
  "map w_opacity (wallSegments (updateWallVisibility (Some cameraJustBelowCutoff) defaultRoom))
     = [1, 1, 1, 1]"
  using visibility_update_is_hard_toggle[of "Some cameraJustBelowCutoff" defaultRoom]
  by (simp add: wallSegments_defaultRoom)

section \<open>Properties of the edge labels\<close>











section \<open>Properties of undo and redo\<close>

text \<open>
  Claim C10. \<open>undo\<close> on an empty undo stack and \<open>redo\<close> on an empty redo stack
  return without an error and leave the whole state as it is: scene, object list,
  selection, object states and both stacks.
\<close>

theorem undo_redo_on_empty_stack:
  "(undoStack s = [] \<longrightarrow> undo s = (None, s)) \<and> (redoStack s = [] \<longrightarrow> redo s = (None, s))"
  by (simp add: undo_def redo_def)

theorem undo_redo_on_empty_stack_witness:
  "undoStack (sceneWithMovedChair\<lparr>undoStack := []\<rparr>) = []
   \<and> redoStack (sceneWithMovedChair\<lparr>undoStack := []\<rparr>) = []
   \<and> undo (sceneWithMovedChair\<lparr>undoStack := []\<rparr>) = (None, sceneWithMovedChair\<lparr>undoStack := []\<rparr>)
   \<and> redo (sceneWithMovedChair\<lparr>undoStack := []\<rparr>) = (None, sceneWithMovedChair\<lparr>undoStack := []\<rparr>)"
  using undo_redo_on_empty_stack[of "sceneWithMovedChair\<lparr>undoStack := []\<rparr>"]
  by (simp add: sceneWithMovedChair_def)

lemma undo_unknown:
  assumes "undoStack s \<noteq> []" and "\<not> knownType (a_type (last (undoStack s)))"
  shows "undo s = (None, s\<lparr>undoStack := butlast (undoStack s),
                            sm_warnings := sm_warnings s @ [UnknownActionTypeForUndo (a_type (last (undoStack s)))],
                            redoStack := redoStack s @ [last (undoStack s)]\<rparr>)"
  using assms by (simp add: undo_def knownType_def Let_def)

lemma redo_unknown:
  assumes "redoStack s \<noteq> []" and "\<not> knownType (a_type (last (redoStack s)))"
  shows "redo s = (None, s\<lparr>redoStack := butlast (redoStack s),
                            sm_warnings := sm_warnings s @ [UnknownActionTypeForRedo (a_type (last (redoStack s)))],
                            undoStack := undoStack s @ [last (redoStack s)]\<rparr>)"
  using assms by (simp add: redo_def knownType_def Let_def)

text \<open>
  Claim C7 as amended: for an action whose type is none of add, remove and transform,
  \<open>undo\<close> and \<open>redo\<close> warn and change neither the scene, the object list, the
  selection nor any object state. The action is not lost, but it goes to the other stack:
  \<open>undo\<close> takes it from the undo stack and puts it on the redo stack, and \<open>redo\<close>
  takes it from the redo stack and puts it on the undo stack.
\<close>

theorem unknown_action_moves_to_other_stack:
  assumes "\<not> knownType (a_type a)"
  shows "undo (s\<lparr>undoStack := us @ [a]\<rparr>)
           = (None, s\<lparr>undoStack := us, redoStack := redoStack s @ [a],
                       sm_warnings := sm_warnings s @ [UnknownActionTypeForUndo (a_type a)]\<rparr>)
       \<and> redo (s\<lparr>redoStack := rs @ [a]\<rparr>)
           = (None, s\<lparr>redoStack := rs, undoStack := undoStack s @ [a],
                       sm_warnings := sm_warnings s @ [UnknownActionTypeForRedo (a_type a)]\<rparr>)"
  using assms by (simp add: undo_unknown redo_unknown)


theorem unknown_action_moves_to_other_stack_witness:
  "\<not> knownType (a_type paintChair)
   \<and> undo (sceneWithMovedChair\<lparr>undoStack := [addChair] @ [paintChair]\<rparr>)
       = (None, sceneWithMovedChair\<lparr>undoStack := [addChair], redoStack := [paintChair],
                   sm_warnings := [UnknownActionTypeForUndo ''paint'']\<rparr>)
   \<and> redo (sceneWithMovedChair\<lparr>redoStack := [] @ [paintChair]\<rparr>)
       = (None, sceneWithMovedChair\<lparr>redoStack := [], undoStack := [addChair, paintChair],
                   sm_warnings := [UnknownActionTypeForRedo ''paint'']\<rparr>)"
proof -
  have k: "\<not> knownType (a_type paintChair)"
    by (simp add: knownType_def paintChair_def)
  show ?thesis
    using unknown_action_moves_to_other_stack[OF k, where s = sceneWithMovedChair
            and us = "[addChair]" and rs = "[]"] k
    by (simp add: sceneWithMovedChair_def paintChair_def)
qed

text \<open>
  Claim C7 says that the action is pushed back onto the stack it was popped from. With
  an action of type \<open>paint\<close> on top of the undo stack, \<open>undo\<close> leaves it off the undo
  stack and on the redo stack; \<open>redo\<close> does the converse.
\<close>

theorem unknown_action_not_pushed_back_counterexample:
  "a_type paintChair = ''paint''
   \<and> undoStack (snd (undo (sceneWithMovedChair\<lparr>undoStack := [addChair, paintChair]\<rparr>))) = [addChair]
   \<and> redoStack (snd (undo (sceneWithMovedChair\<lparr>undoStack := [addChair, paintChair]\<rparr>))) = [paintChair]
   \<and> redoStack (snd (redo (sceneWithMovedChair\<lparr>redoStack := [paintChair]\<rparr>))) = []
   \<and> undoStack (snd (redo (sceneWithMovedChair\<lparr>redoStack := [paintChair]\<rparr>))) = [addChair, paintChair]"
  by (simp add: undo_def redo_def Let_def paintChair_def sceneWithMovedChair_def)

subsection \<open>Undo followed by redo\<close>

text \<open>
  For an add and for a remove whose recorded state is the state of the object, undo
  followed by redo gives back the stacks, the object states and the presence of the object.
  For a transform the same holds when there is no interaction manager.
\<close>


lemma undo_add:
  assumes "a_type a = ''add''"
  shows "fst (undo (s\<lparr>undoStack := us @ [a]\<rparr>)) = None"
    and "undoStack (snd (undo (s\<lparr>undoStack := us @ [a]\<rparr>))) = us"
    and "redoStack (snd (undo (s\<lparr>undoStack := us @ [a]\<rparr>))) = redoStack s @ [a]"
    and "objectStore (snd (undo (s\<lparr>undoStack := us @ [a]\<rparr>))) = objectStore s"
    and "scene (snd (undo (s\<lparr>undoStack := us @ [a]\<rparr>))) = sceneRemove (a_object a) (scene s)"
    and "objects (snd (undo (s\<lparr>undoStack := us @ [a]\<rparr>))) = filter (\<lambda>obj. obj \<noteq> a_object a) (objects s)"
  using assms
  by (simp_all add: undo_def Let_def deselectObject_def split: option.split)

lemma redo_add:
  assumes "a_type a = ''add''" and "properties a = Some st"
  shows "redo (s\<lparr>redoStack := rs @ [a]\<rparr>)
           = (None, s\<lparr>redoStack := rs, scene := sceneAdd (a_object a) (scene s),
                       objects := objects s @ [a_object a],
                       objectStore := (objectStore s)(a_object a := st),
                       undoStack := undoStack s @ [a]\<rparr>)"
  using assms by (simp add: redo_def Let_def applyObjectState_def)

lemma undo_remove:
  assumes "a_type a = ''remove''" and "properties a = Some st"
  shows "undo (s\<lparr>undoStack := us @ [a]\<rparr>)
           = (None, s\<lparr>undoStack := us, scene := sceneAdd (a_object a) (scene s),
                       objects := objects s @ [a_object a],
                       objectStore := (objectStore s)(a_object a := st),
                       redoStack := redoStack s @ [a]\<rparr>)"
  using assms by (simp add: undo_def Let_def applyObjectState_def)

lemma redo_remove:
  assumes "a_type a = ''remove''"
  shows "fst (redo (s\<lparr>redoStack := rs @ [a]\<rparr>)) = None"
    and "redoStack (snd (redo (s\<lparr>redoStack := rs @ [a]\<rparr>))) = rs"
    and "undoStack (snd (redo (s\<lparr>redoStack := rs @ [a]\<rparr>))) = undoStack s @ [a]"
    and "objectStore (snd (redo (s\<lparr>redoStack := rs @ [a]\<rparr>))) = objectStore s"
    and "scene (snd (redo (s\<lparr>redoStack := rs @ [a]\<rparr>))) = sceneRemove (a_object a) (scene s)"
    and "objects (snd (redo (s\<lparr>redoStack := rs @ [a]\<rparr>))) = filter (\<lambda>obj. obj \<noteq> a_object a) (objects s)"
  using assms
  by (simp_all add: redo_def Let_def deselectObject_def split: option.split)


lemma undo_then_redo_add:
  assumes "a_type a = ''add''" and "properties a = Some (objectStore s (a_object a))"
  shows "fst (undo (s\<lparr>undoStack := us @ [a]\<rparr>)) = None"
    and "fst (redo (snd (undo (s\<lparr>undoStack := us @ [a]\<rparr>)))) = None"
    and "undoStack (snd (redo (snd (undo (s\<lparr>undoStack := us @ [a]\<rparr>))))) = us @ [a]"
    and "redoStack (snd (redo (snd (undo (s\<lparr>undoStack := us @ [a]\<rparr>))))) = redoStack s"
    and "objectStore (snd (redo (snd (undo (s\<lparr>undoStack := us @ [a]\<rparr>))))) = objectStore s"
    and "a_object a \<in> set (scene (snd (redo (snd (undo (s\<lparr>undoStack := us @ [a]\<rparr>))))))"
    and "a_object a \<in> set (objects (snd (redo (snd (undo (s\<lparr>undoStack := us @ [a]\<rparr>))))))"
proof -
  define u where "u = snd (undo (s\<lparr>undoStack := us @ [a]\<rparr>))"
  note ua = undo_add[OF assms(1), where s = s and us = us, folded u_def]
  have "u = u\<lparr>redoStack := redoStack s @ [a]\<rparr>"
    using ua(3) by simp
  then have r: "redo u = redo (u\<lparr>redoStack := redoStack s @ [a]\<rparr>)"
    by simp
  have p: "properties a = Some (objectStore u (a_object a))"
    using assms(2) ua(4) by simp
  note ra = redo_add[OF assms(1) p, where s = u and rs = "redoStack s", folded r]
  show "fst (undo (s\<lparr>undoStack := us @ [a]\<rparr>)) = None"
    by (rule ua(1))
  show "fst (redo (snd (undo (s\<lparr>undoStack := us @ [a]\<rparr>)))) = None"
    unfolding u_def[symmetric] ra by simp
  show "undoStack (snd (redo (snd (undo (s\<lparr>undoStack := us @ [a]\<rparr>))))) = us @ [a]"
    unfolding u_def[symmetric] ra by (simp add: ua(2))
  show "redoStack (snd (redo (snd (undo (s\<lparr>undoStack := us @ [a]\<rparr>))))) = redoStack s"
    unfolding u_def[symmetric] ra by simp
  show "objectStore (snd (redo (snd (undo (s\<lparr>undoStack := us @ [a]\<rparr>))))) = objectStore s"
    unfolding u_def[symmetric] ra by (simp add: ua(4))
  show "a_object a \<in> set (scene (snd (redo (snd (undo (s\<lparr>undoStack := us @ [a]\<rparr>))))))"
    unfolding u_def[symmetric] ra by (simp add: sceneAdd_def)
  show "a_object a \<in> set (objects (snd (redo (snd (undo (s\<lparr>undoStack := us @ [a]\<rparr>))))))"
    unfolding u_def[symmetric] ra by simp
qed

lemma undo_then_redo_remove:
  assumes "a_type a = ''remove''" and "properties a = Some (objectStore s (a_object a))"
    and "a_object a \<notin> set (scene s)" and "a_object a \<notin> set (objects s)"
  shows "fst (undo (s\<lparr>undoStack := us @ [a]\<rparr>)) = None"
    and "fst (redo (snd (undo (s\<lparr>undoStack := us @ [a]\<rparr>)))) = None"
    and "undoStack (snd (redo (snd (undo (s\<lparr>undoStack := us @ [a]\<rparr>))))) = us @ [a]"
    and "redoStack (snd (redo (snd (undo (s\<lparr>undoStack := us @ [a]\<rparr>))))) = redoStack s"
    and "objectStore (snd (redo (snd (undo (s\<lparr>undoStack := us @ [a]\<rparr>))))) = objectStore s"
    and "scene (snd (redo (snd (undo (s\<lparr>undoStack := us @ [a]\<rparr>))))) = scene s"
    and "objects (snd (redo (snd (undo (s\<lparr>undoStack := us @ [a]\<rparr>))))) = objects s"
proof -
  define v where "v = s\<lparr>undoStack := us, scene := sceneAdd (a_object a) (scene s),
                        objects := objects s @ [a_object a],
                        objectStore := (objectStore s)(a_object a := objectStore s (a_object a))\<rparr>"
  have u: "undo (s\<lparr>undoStack := us @ [a]\<rparr>) = (None, v\<lparr>redoStack := redoStack s @ [a]\<rparr>)"
    unfolding v_def using undo_remove[OF assms(1,2), where s = s and us = us] by simp
  note rr = redo_remove[OF assms(1), where s = v and rs = "redoStack s"]
  show "fst (undo (s\<lparr>undoStack := us @ [a]\<rparr>)) = None"
    by (simp add: u)
  show "fst (redo (snd (undo (s\<lparr>undoStack := us @ [a]\<rparr>)))) = None"
    by (simp add: u rr(1))
  show "undoStack (snd (redo (snd (undo (s\<lparr>undoStack := us @ [a]\<rparr>))))) = us @ [a]"
    by (simp add: u rr(3)) (simp add: v_def)
  show "redoStack (snd (redo (snd (undo (s\<lparr>undoStack := us @ [a]\<rparr>))))) = redoStack s"
    by (simp add: u rr(2))
  show "objectStore (snd (redo (snd (undo (s\<lparr>undoStack := us @ [a]\<rparr>))))) = objectStore s"
    by (simp add: u rr(4)) (simp add: v_def)
  show "scene (snd (redo (snd (undo (s\<lparr>undoStack := us @ [a]\<rparr>))))) = scene s"
    using assms(3) by (simp add: u rr(5)) (simp add: v_def sceneAdd_def sceneRemove_def remove1_append remove1_idem)
  show "objects (snd (redo (snd (undo (s\<lparr>undoStack := us @ [a]\<rparr>))))) = objects s"
    using assms(4) by (simp add: u rr(6)) (auto simp add: v_def filter_id_conv)
qed

lemma undo_then_redo_transform_without_manager:
  assumes "a_type a = ''transform''" and "previousProperties a = Some p"
    and "newProperties a = Some (objectStore s (a_object a))" and "interactionManager s = None"
  shows "redo (snd (undo (s\<lparr>undoStack := us @ [a]\<rparr>))) = (None, s\<lparr>undoStack := us @ [a]\<rparr>)"
proof -
  have u: "undo (s\<lparr>undoStack := us @ [a]\<rparr>)
             = (None, s\<lparr>undoStack := us, objectStore := (objectStore s)(a_object a := p),
                         redoStack := redoStack s @ [a]\<rparr>)"
    using assms by (simp add: undo_def Let_def applyObjectState_def updateControlsForObject_def)
  show ?thesis
    unfolding u using assms
    by (simp add: redo_def Let_def applyObjectState_def updateControlsForObject_def)
qed


text \<open>
  Claim C5, for a transform on top of the undo stack when there is an interaction manager:
  \<open>undo\<close> throws and the action, already popped, reaches neither stack, so \<open>redo\<close>
  has nothing to restore. With the action as \<open>onObjectChanged\<close> records it (no previous
  state) \<open>applyObjectState\<close> throws at once. With a previous state recorded, the object
  is put back to it and the call of the missing method \<open>updateControlsForObject\<close> throws:
  after \<open>redo\<close> the chair is at the origin, not at \<open>(1, 0, 2)\<close> where it stood before
  the undo.
\<close>

theorem undo_of_transform_throws:
  "undo (onObjectChanged chair None sceneWithMovedChair)
     = (Some TypeError, sceneWithMovedChair)
   \<and> redo (snd (undo (onObjectChanged chair None sceneWithMovedChair)))
     = (None, sceneWithMovedChair)
   \<and> undoStack (onObjectChanged chair None sceneWithMovedChair)
     = [addChair, moveChair\<lparr>previousProperties := None\<rparr>]
   \<and> undoStack sceneWithMovedChair = [addChair]
   \<and> undo (addToUndoStack moveChair sceneWithMovedChair)
     = (Some TypeError, sceneWithMovedChair\<lparr>objectStore := (objectStore sceneWithMovedChair)(chair := placedAt 0 0)\<rparr>)
   \<and> redo (snd (undo (addToUndoStack moveChair sceneWithMovedChair)))
     = (None, sceneWithMovedChair\<lparr>objectStore := (objectStore sceneWithMovedChair)(chair := placedAt 0 0)\<rparr>)
   \<and> position (objectStore (addToUndoStack moveChair sceneWithMovedChair) chair) = Vector3 1 0 2
   \<and> position (objectStore (snd (redo (snd (undo (addToUndoStack moveChair sceneWithMovedChair))))) chair)
     = Vector3 0 0 0"
proof -
  have a: "undo (onObjectChanged chair None sceneWithMovedChair) = (Some TypeError, sceneWithMovedChair)"
    by (simp add: onObjectChanged_def addToUndoStack_def undo_def Let_def applyObjectState_def
        sceneWithMovedChair_def)
  have b: "redo sceneWithMovedChair = (None, sceneWithMovedChair)"
    by (simp add: redo_def sceneWithMovedChair_def)
  have c: "undoStack (onObjectChanged chair None sceneWithMovedChair)
             = [addChair, moveChair\<lparr>previousProperties := None\<rparr>]"
    by (simp add: onObjectChanged_def addToUndoStack_def getObjectState_def moveChair_def
        sceneWithMovedChair_def)
  have d: "undo (addToUndoStack moveChair sceneWithMovedChair)
             = (Some TypeError, sceneWithMovedChair\<lparr>objectStore :=
                  (objectStore sceneWithMovedChair)(chair := placedAt 0 0)\<rparr>)"
    by (simp add: addToUndoStack_def undo_def Let_def applyObjectState_def
        updateControlsForObject_def sceneWithMovedChair_def moveChair_def)
  have e: "redo (sceneWithMovedChair\<lparr>objectStore := (objectStore sceneWithMovedChair)(chair := placedAt 0 0)\<rparr>)
             = (None, sceneWithMovedChair\<lparr>objectStore := (objectStore sceneWithMovedChair)(chair := placedAt 0 0)\<rparr>)"
    by (simp add: redo_def sceneWithMovedChair_def)
  have f: "undoStack sceneWithMovedChair = [addChair]"
    by (simp add: sceneWithMovedChair_def)
  have g: "position (objectStore (addToUndoStack moveChair sceneWithMovedChair) chair) = Vector3 1 0 2"
    by (simp add: addToUndoStack_def sceneWithMovedChair_def placedAt_def)
  show ?thesis
    unfolding a d using b c e f g by (simp add: placedAt_def)
qed

section \<open>Properties of the translate drag\<close>

lemma Vector3_eta: "Vector3 (v_x p) (v_y p) (v_z p) = p"
  by (simp add: Vector3_def)

lemma Vector3_sel: "v_x (Vector3 a b c) = a" "v_y (Vector3 a b c) = b" "v_z (Vector3 a b c) = c"
  by (simp_all add: Vector3_def)

lemma dragPlane_startDrag:
  assumes "\<not> isPinned im object" and "interactionMode im \<noteq> ''rotate''"
  shows "dragPlane (startDrag object hitPoint st im) = \<lparr>pl_normal = Vector3 0 1 0, pl_constant = 0\<rparr>"
    and "dragOffset (startDrag object hitPoint st im)
           = Vector3 (v_x hitPoint - v_x (position (st object))) 0
                     (v_z hitPoint - v_z (position (st object)))"
    and "isDragging (startDrag object hitPoint st im)"
    and "\<not> isRotating (startDrag object hitPoint st im)"
    and "im_selectedObject (startDrag object hitPoint st im) = im_selectedObject im"
    and "pinnedObjects (startDrag object hitPoint st im) = pinnedObjects im"
    and "pointer (startDrag object hitPoint st im) = pointer im"
  using assms
  by (simp_all add: startDrag_def Let_def setFromNormalAndCoplanarPoint_def dot_def Vector3_def)

lemma intersectPlane_floor:
  assumes "v_y (direction ry) \<noteq> 0" and "0 \<le> t" and "v_y (at_ray ry t) = 0"
  shows "intersectPlane ry \<lparr>pl_normal = Vector3 0 1 0, pl_constant = 0\<rparr> = Some (at_ray ry t)"
proof -
  have "v_y (origin ry) + v_y (direction ry) * t = 0"
    using assms(3) by (simp add: at_ray_def Vector3_def)
  then have "t = - v_y (origin ry) / v_y (direction ry)"
    using assms(1) by (simp add: field_simps)
  then show ?thesis
    using assms(1,2)
    by (simp add: intersectPlane_def distanceToPlane_def Let_def dot_def Vector3_def)
qed

text \<open>
  When the grab point lies on the floor plane, a pointer move to the position of the grab
  leaves the object where it is.
\<close>

lemma translate_drag_grab_on_floor:
  assumes "im_selectedObject im = Some object" and "\<not> isPinned im object"
    and "interactionMode im \<noteq> ''rotate''"
    and "v_y (direction (pickRay cam ndc)) \<noteq> 0" and "0 \<le> t"
    and "hitPoint = at_ray (pickRay cam ndc) t" and "v_y hitPoint = 0"
  shows "onPointerMove cam ndc (onPointerDown ndc (Some (object, hitPoint)) st im, st)
           = Inr (onPointerDown ndc (Some (object, hitPoint)) st im, st)"
proof -
  define im1 where "im1 = im\<lparr>pointer := ndc, startPointer := ndc\<rparr>"
  have p: "\<not> isPinned im1 object" "interactionMode im1 \<noteq> ''rotate''"
    using assms(2,3) by (simp_all add: im1_def isPinned_def)
  have d: "onPointerDown ndc (Some (object, hitPoint)) st im = startDrag object hitPoint st im1"
    using assms(1) p by (simp add: onPointerDown_def Let_def im1_def[symmetric]) (simp add: im1_def)
  note sd = dragPlane_startDrag[OF p, of hitPoint st]
  have i: "intersectPlane (pickRay cam ndc) \<lparr>pl_normal = Vector3 0 1 0, pl_constant = 0\<rparr> = Some hitPoint"
    using intersectPlane_floor[OF assms(4,5)] assms(6,7) by simp
  have u: "(startDrag object hitPoint st im1)\<lparr>pointer := ndc\<rparr> = startDrag object hitPoint st im1"
    using sd(7) by (simp add: im1_def)
  have s: "im_selectedObject (startDrag object hitPoint st im1) = Some object"
    using sd(5) assms(1) by (simp add: im1_def)
  have np: "\<not> isPinned (startDrag object hitPoint st im1) object"
    using sd(6) p(1) by (simp add: isPinned_def)
  have pt: "pointer (startDrag object hitPoint st im1) = ndc"
    using sd(7) by (simp add: im1_def)
  have h: "handleTranslation cam (startDrag object hitPoint st im1) st = Inr st"
    unfolding handleTranslation_def pt sd(1) i
    by (simp add: s sd(2) Let_def Vector3_sel Vector3_eta)
  show ?thesis
    unfolding d onPointerMove_def
    by (simp add: Let_def u s np sd(3) sd(4) h)
qed

text \<open>
  Claim C6, for a grab point above the floor: the chair at \<open>(1, 0, 1/2)\<close> is grabbed at
  \<open>(3/2, 2, 0)\<close> on the ray of the pointer, and a pointer move to the same pointer
  position, with the same camera, puts it at \<open>(5/2, 0, 1/2)\<close>, where it stays when
  the pointer is released. The offset is taken from the point on the object's surface,
  while each move takes the point where the ray meets the floor.
\<close>

theorem translate_drag_drifts_when_grabbed_above_floor:
  "at_ray (pickRay dragCamera (0, 0)) (5 / 2) = grabPoint
   \<and> v_y grabPoint = 2
   \<and> position (chairStore chair) = Vector3 1 0 (1 / 2)
   \<and> map_sum id (\<lambda>r. (isDragging (onPointerUp (fst r)), position (snd r chair)))
        (onPointerMove dragCamera (0, 0)
           (onPointerDown (0, 0) (Some (chair, grabPoint)) chairStore chairSelected, chairStore))
       = Inr (False, Vector3 (5 / 2) 0 (1 / 2))"
  by (simp add: onPointerMove_def onPointerDown_def onPointerUp_def startDrag_def
      handleTranslation_def intersectPlane_def distanceToPlane_def at_ray_def
      setFromNormalAndCoplanarPoint_def distanceToPoint_def dot_def isPinned_def Let_def
      dragCamera_def chairSelected_def newInteractionManager_def chairStore_def placedAt_def
      grabPoint_def chair_def Vector3_def)

end
